theory Spec2Isabelle
  imports Main "HOL-Library.Word"
begin

section \<open>Data model (FF_LED.h)\<close>

text \<open>
  The class \<open>FF_LED\<close> drives one LED pin of an Arduino board. Its integer fields are
  \<open>uint8_t\<close>, \<open>int8_t\<close> and \<open>unsigned long\<close>; on the Arduino targets of the library
  \<open>unsigned long\<close> (the type of \<open>millis()\<close>) has 32 bits, which is also what the sentinel
  \<open>FF_LED_WAIT_FOR_EVER = 4294967295\<close> assumes. They are modelled as machine words, so
  that \<open>+\<close> and \<open>-\<close> wrap as in the C++ code.
\<close>

type_synonym uint8_t = "8 word"
type_synonym int8_t = "8 word"
type_synonym ulong = "32 word"

datatype ledModedType = fixed | blink | pulse

record FF_LED =
  ledPin :: uint8_t
  ledReverted :: bool
  ledBlinksNeeded :: uint8_t
  ledBlinksDone :: uint8_t
  ledMinLevel :: uint8_t
  ledMaxLevel :: uint8_t
  ledLevel :: uint8_t
  ledIncrease :: bool
  ledPulseIncrement :: int8_t
  ledMode :: ledModedType
  ledOnDelay :: ulong
  ledOffDelay :: ulong
  ledWaitDelay :: ulong
  ledDelay :: ulong
  ledLastTimeChanged :: ulong

text \<open>
  The hardware is reached through three Arduino primitives. A call is recorded as a value;
  every operation returns the new object state together with the list of calls it made,
  in order. \<open>digitalWrite\<close> takes a \<open>uint8_t\<close> value, \<open>analogWrite\<close> an \<open>int\<close>.
  The \<open>Serial.printf\<close> debugging output of the setters is not part of the model.
\<close>

datatype pin_mode = INPUT | OUTPUT

datatype hw_call =
    digitalWrite uint8_t uint8_t
  | analogWrite uint8_t int
  | pinMode uint8_t pin_mode

definition FF_LED_WAIT_FOR_EVER :: ulong where
  "FF_LED_WAIT_FOR_EVER = 4294967295"

section \<open>Operations (FF_LED.cpp)\<close>

text \<open>The constructor; the remaining fields take their in-class initialisers.\<close>

definition FF_LED_new :: "uint8_t \<Rightarrow> bool \<Rightarrow> uint8_t \<Rightarrow> FF_LED" where
  "FF_LED_new pin isReverted initialLevel =
     \<lparr> ledPin = pin, ledReverted = isReverted,
       ledBlinksNeeded = 0, ledBlinksDone = 0,
       ledMinLevel = 0, ledMaxLevel = 255,
       ledLevel = initialLevel,
       ledIncrease = False, ledPulseIncrement = 0,
       ledMode = fixed,
       ledOnDelay = 0, ledOffDelay = 0, ledWaitDelay = 0,
       ledDelay = 0, ledLastTimeChanged = 0 \<rparr>"

text \<open>The destructor releases the pin.\<close>

definition FF_LED_delete :: "FF_LED \<Rightarrow> hw_call list" where
  "FF_LED_delete s = [pinMode (ledPin s) INPUT]"

text \<open>
  \<open>setLed\<close>: the argument \<open>now\<close> is the value that the call of \<open>millis()\<close> inside
  \<open>setLed\<close> returns.
\<close>

definition setLed :: "uint8_t \<Rightarrow> ulong \<Rightarrow> ulong \<Rightarrow> FF_LED \<Rightarrow> FF_LED \<times> hw_call list" where
  "setLed level delay now s =
     (let s' = s\<lparr>ledLevel := level, ledDelay := delay, ledLastTimeChanged := now\<rparr> in
      if ledLevel s' = 0 then
        (s', [digitalWrite (ledPin s') (if ledReverted s' then ledMaxLevel s' else ledMinLevel s')])
      else if ledLevel s' = 255 then
        (s', [digitalWrite (ledPin s') (if ledReverted s' then ledMinLevel s' else ledMaxLevel s')])
      else
        (s', [analogWrite (ledPin s')
                (if ledReverted s' then 255 - uint (ledLevel s') else uint (ledLevel s'))]))"

definition setBlink ::
  "uint8_t \<Rightarrow> ulong \<Rightarrow> ulong \<Rightarrow> ulong \<Rightarrow> uint8_t \<Rightarrow> uint8_t \<Rightarrow> ulong \<Rightarrow> FF_LED
     \<Rightarrow> FF_LED \<times> hw_call list" where
  "setBlink blinkCount onTime offTime waitTime minLevel maxLevel now s =
     (let s' = s\<lparr>ledBlinksNeeded := blinkCount,
                 ledOnDelay := onTime, ledOffDelay := offTime, ledWaitDelay := waitTime,
                 ledMinLevel := minLevel, ledMaxLevel := maxLevel,
                 ledBlinksDone := 0, ledMode := blink\<rparr> in
      if ledBlinksNeeded s' \<noteq> 0 then setLed (ledMaxLevel s') (ledOnDelay s') now s'
      else setLed (ledMinLevel s') (ledWaitDelay s') now s')"

definition setFixed :: "uint8_t \<Rightarrow> ulong \<Rightarrow> FF_LED \<Rightarrow> FF_LED \<times> hw_call list" where
  "setFixed level now s =
     (let s' = s\<lparr>ledLevel := level, ledMode := fixed\<rparr> in
      setLed (ledLevel s') FF_LED_WAIT_FOR_EVER now s')"

definition setPulse ::
  "bool \<Rightarrow> ulong \<Rightarrow> ulong \<Rightarrow> ulong \<Rightarrow> uint8_t \<Rightarrow> uint8_t \<Rightarrow> ulong \<Rightarrow> FF_LED
     \<Rightarrow> FF_LED \<times> hw_call list" where
  "setPulse increase upTime downTime waitTime minLevel maxLevel now s =
     (let s1 = s\<lparr>ledIncrease := increase,
                 ledMinLevel := minLevel, ledMaxLevel := maxLevel,
                 ledOnDelay := upTime, ledOffDelay := downTime, ledWaitDelay := waitTime,
                 ledMode := pulse\<rparr>;
          s2 = (if ledIncrease s1
                then s1\<lparr>ledPulseIncrement := 1, ledLevel := ledMinLevel s1,
                        ledDelay := ledOnDelay s1\<rparr>
                else s1\<lparr>ledPulseIncrement := - 1, ledLevel := ledMaxLevel s1,
                        ledDelay := ledOffDelay s1\<rparr>) in
      setLed (ledLevel s2) (ledDelay s2) now s2)"

definition begin_led :: "ulong \<Rightarrow> FF_LED \<Rightarrow> FF_LED \<times> hw_call list" where
  "begin_led now s =
     (case setLed (ledLevel s) FF_LED_WAIT_FOR_EVER now s of
        (s', ws) \<Rightarrow> (s', ws @ [pinMode (ledPin s') OUTPUT]))"

text \<open>
  The body of the \<open>if\<close> of \<open>loop()\<close>, run when the armed delay is exceeded. \<open>now'\<close> is
  the reading of \<open>millis()\<close> inside \<open>setLed\<close>. \<open>ledNewLevel\<close> is computed in \<open>int\<close>
  (integer promotion of \<open>uint8_t + int8_t\<close>); its value lies between \<open>-128\<close> and
  \<open>382\<close>, so the conversion to \<open>int16_t\<close> changes nothing. The cast \<open>(uint8_t)\<close> is
  \<open>word_of_int\<close>.
\<close>

definition loop_due :: "ulong \<Rightarrow> FF_LED \<Rightarrow> FF_LED \<times> hw_call list" where
  "loop_due now' s =
     (if ledMode s = blink then
        (if ledLevel s = ledMaxLevel s then
           (let s1 = s\<lparr>ledBlinksDone := ledBlinksDone s + 1\<rparr> in
            setLed (ledMinLevel s1) (ledOffDelay s1) now' s1)
         else if ledBlinksDone s \<ge> ledBlinksNeeded s then
           (let s1 = s\<lparr>ledBlinksDone := 0\<rparr> in
            setLed (ledMinLevel s1) (ledWaitDelay s1) now' s1)
         else setLed (ledMaxLevel s) (ledOnDelay s) now' s)
      else if ledMode s = pulse then
        (let ledNewLevel = uint (ledLevel s) + sint (ledPulseIncrement s) in
         if sint (ledPulseIncrement s) > 0 then
           (if ledNewLevel > uint (ledMaxLevel s) then
              (let s1 = s\<lparr>ledPulseIncrement := - 1\<rparr> in
               if ledIncrease s1 then setLed (ledMaxLevel s1) (ledOffDelay s1) now' s1
               else setLed (ledMaxLevel s1) (ledWaitDelay s1) now' s1)
            else setLed (word_of_int ledNewLevel) (ledOnDelay s) now' s)
         else
           (if ledNewLevel < uint (ledMinLevel s) then
              (let s1 = s\<lparr>ledPulseIncrement := 1\<rparr> in
               if \<not> ledIncrease s1 then setLed (ledMinLevel s1) (ledOnDelay s1) now' s1
               else setLed (ledMinLevel s1) (ledWaitDelay s1) now' s1)
            else setLed (word_of_int ledNewLevel) (ledOffDelay s) now' s))
      else (s, []))"

text \<open>
  \<open>loop()\<close>: \<open>now\<close> is the reading of \<open>millis()\<close> in the condition, \<open>now'\<close> the later
  one inside \<open>setLed\<close>. The subtraction is that of 32-bit unsigned words.
\<close>

definition loop :: "ulong \<Rightarrow> ulong \<Rightarrow> FF_LED \<Rightarrow> FF_LED \<times> hw_call list" where
  "loop now now' s =
     (if now - ledLastTimeChanged s > ledDelay s then loop_due now' s else (s, []))"

section \<open>Runs of the polling loop\<close>

text \<open>
  A run of polls: each poll is a pair of clock readings (the one of the due check and the
  one inside \<open>setLed\<close>). The result is the final state and all hardware calls made.
\<close>

fun polls :: "(ulong \<times> ulong) list \<Rightarrow> FF_LED \<Rightarrow> FF_LED \<times> hw_call list" where
  "polls [] s = (s, [])"
| "polls (p # ps) s =
     (case loop (fst p) (snd p) s of
        (s', ws) \<Rightarrow> (case polls ps s' of (s'', ws') \<Rightarrow> (s'', ws @ ws')))"

text \<open>
  A run of due polls only (a poll that is not due changes nothing): the list of results of the successive transitions, one per
  reading of the clock in \<open>setLed\<close>, and the state at the end of the run.
\<close>

fun due_run :: "ulong list \<Rightarrow> FF_LED \<Rightarrow> (FF_LED \<times> hw_call list) list" where
  "due_run [] s = []"
| "due_run (t # ts) s = loop_due t s # due_run ts (fst (loop_due t s))"

fun due_end :: "ulong list \<Rightarrow> FF_LED \<Rightarrow> FF_LED" where
  "due_end [] s = s"
| "due_end (t # ts) s = due_end ts (fst (loop_due t s))"

text \<open>What is observed of a transition: the level and the delay it commits, and its
  hardware calls.\<close>

definition commit :: "FF_LED \<times> hw_call list \<Rightarrow> uint8_t \<times> ulong \<times> hw_call list" where
  "commit r = (ledLevel (fst r), ledDelay (fst r), snd r)"

text \<open>The hardware calls with which \<open>setLed\<close> commits a level in a given state.\<close>

definition led_write :: "FF_LED \<Rightarrow> uint8_t \<Rightarrow> hw_call list" where
  "led_write s level = snd (setLed level 0 0 s)"

text \<open>The level and the delay of a state, and its level with the sweep direction.\<close>

definition phase :: "FF_LED \<Rightarrow> uint8_t \<times> ulong" where
  "phase s = (ledLevel s, ledDelay s)"


text \<open>The level lies between the stored bounds.\<close>

definition level_in_range :: "FF_LED \<Rightarrow> bool" where
  "level_in_range s = (ledMinLevel s \<le> ledLevel s \<and> ledLevel s \<le> ledMaxLevel s)"

section \<open>Example channels\<close>

text \<open>
  A pulsing channel \<open>setPulse(true, 20, 20, 1000, 0, 10)\<close> on pin 13, armed at time 0,
  and the states it is in after 10 transitions (at the peak, still ascending) and after
  21 transitions (at the trough, still descending).
\<close>

definition pulse_demo :: FF_LED where
  "pulse_demo = fst (setPulse True 20 20 1000 0 10 0 (FF_LED_new 13 False 0))"

definition at_peak :: FF_LED where
  "at_peak = due_end [21, 42, 63, 84, 105, 126, 147, 168, 189, 210] pulse_demo"

definition at_trough :: FF_LED where
  "at_trough = due_end [21, 42, 63, 84, 105, 126, 147, 168, 189, 210, 231, 252, 273, 294, 315,
                        336, 357, 378, 399, 420, 441] pulse_demo"

text \<open>
  A blinking channel armed 6 ms before the 32-bit millisecond clock wraps around
  (\<open>4294967290 = 2^32 - 6\<close>).
\<close>

definition armed_before_wrap :: FF_LED where
  "armed_before_wrap = fst (setBlink 3 100 50 500 0 255 (of_nat 4294967290) (FF_LED_new 13 False 0))"

section \<open>Basic facts about the operations\<close>

text \<open>
  \<open>setLed\<close> stores its three values and makes exactly one hardware call, which depends
  only on the pin, the polarity and the stored bounds.
\<close>

lemma setLed_eq: "setLed l d t s = (s\<lparr>ledLevel := l, ledDelay := d, ledLastTimeChanged := t\<rparr>, led_write s l)"
  by (simp add: setLed_def led_write_def Let_def)

lemma led_write_upd [simp]:
  "led_write (s\<lparr>ledLevel := a\<rparr>) l = led_write s l"
  "led_write (s\<lparr>ledDelay := b\<rparr>) l = led_write s l"
  "led_write (s\<lparr>ledLastTimeChanged := c\<rparr>) l = led_write s l"
  "led_write (s\<lparr>ledBlinksDone := e\<rparr>) l = led_write s l"
  "led_write (s\<lparr>ledPulseIncrement := f\<rparr>) l = led_write s l"
  by (simp_all add: led_write_def setLed_def Let_def)

lemma led_write_cong:
  "ledPin s = ledPin s' \<Longrightarrow> ledReverted s = ledReverted s' \<Longrightarrow> ledMinLevel s = ledMinLevel s' \<Longrightarrow>
   ledMaxLevel s = ledMaxLevel s' \<Longrightarrow> led_write s l = led_write s' l"
  by (simp add: led_write_def setLed_def Let_def)

lemma led_write_0: "led_write s 0 = [digitalWrite (ledPin s) (if ledReverted s then ledMaxLevel s else ledMinLevel s)]"
  by (simp add: led_write_def setLed_def Let_def)

lemma led_write_255: "led_write s 255 = [digitalWrite (ledPin s) (if ledReverted s then ledMinLevel s else ledMaxLevel s)]"
  by (simp add: led_write_def setLed_def Let_def)

lemma setFixed_snd: "snd (setFixed l t s) = led_write s l"
  by (simp add: setFixed_def setLed_eq Let_def led_write_cong[of "s\<lparr>ledLevel := l, ledMode := fixed\<rparr>" s])

lemma setBlink_fields:
  "ledPin (fst (setBlink n onTime offTime waitTime minLevel maxLevel t0 s)) = ledPin s"
  "ledReverted (fst (setBlink n onTime offTime waitTime minLevel maxLevel t0 s)) = ledReverted s"
  "ledMinLevel (fst (setBlink n onTime offTime waitTime minLevel maxLevel t0 s)) = minLevel"
  "ledMaxLevel (fst (setBlink n onTime offTime waitTime minLevel maxLevel t0 s)) = maxLevel"
  by (simp_all add: setBlink_def setLed_eq Let_def)

lemma setPulse_fields:
  "ledPin (fst (setPulse i onTime offTime waitTime minLevel maxLevel t0 s)) = ledPin s"
  "ledReverted (fst (setPulse i onTime offTime waitTime minLevel maxLevel t0 s)) = ledReverted s"
  "ledMinLevel (fst (setPulse i onTime offTime waitTime minLevel maxLevel t0 s)) = minLevel"
  "ledMaxLevel (fst (setPulse i onTime offTime waitTime minLevel maxLevel t0 s)) = maxLevel"
  by (simp_all add: setPulse_def setLed_eq Let_def)



section \<open>The guard of loop()\<close>

text \<open>
  Claim C7. Whenever the elapsed time since \<open>ledLastTimeChanged\<close>, computed by unsigned
  subtraction, does not strictly exceed the armed \<open>ledDelay\<close>, \<open>loop()\<close> leaves every
  field of the state unchanged and makes no hardware call, in every mode; this includes
  the poll at which the elapsed time equals the delay.
\<close>

theorem loop_not_due_noop:
  "\<not> (now - ledLastTimeChanged s > ledDelay s) \<Longrightarrow> loop now now' s = (s, [])"
  by (simp add: loop_def)

text \<open>
  An instance: armed at time 1000 with a delay of 100 ms, the poll at time 1100 (elapsed
  time equal to the delay) changes nothing.
\<close>

theorem loop_not_due_noop_witness:
  "\<not> ((1100::ulong) - ledLastTimeChanged (fst (setBlink 3 100 50 500 0 255 1000 (FF_LED_new 13 False 0)))
        > ledDelay (fst (setBlink 3 100 50 500 0 255 1000 (FF_LED_new 13 False 0))))
   \<and> loop 1100 1101 (fst (setBlink 3 100 50 500 0 255 1000 (FF_LED_new 13 False 0)))
       = (fst (setBlink 3 100 50 500 0 255 1000 (FF_LED_new 13 False 0)), [])"
proof -
  have h: "\<not> ((1100::ulong) - ledLastTimeChanged (fst (setBlink 3 100 50 500 0 255 1000 (FF_LED_new 13 False 0)))
        > ledDelay (fst (setBlink 3 100 50 500 0 255 1000 (FF_LED_new 13 False 0))))"
    by (simp add: setBlink_def setLed_def FF_LED_new_def)
  show ?thesis
    using h loop_not_due_noop [OF h, of 1101] by simp
qed

text \<open>
  Claim C9. Let \<open>T0 \<le> T1\<close> be the true times (in ms, not wrapped) at which the
  transition was armed and at which \<open>loop()\<close> polls; the clock shows them modulo
  \<open>2^32\<close>. If the true elapsed time \<open>T1 - T0\<close> is at most half the range of the clock,
  \<open>loop()\<close> fires exactly when the true elapsed time strictly exceeds the delay, also
  when the clock has wrapped around in between.
\<close>

theorem due_check_wraparound:
  assumes "T0 \<le> T1" and "T1 - T0 \<le> 2 ^ 31" and "ledLastTimeChanged s = of_nat T0"
  shows "loop (of_nat T1) now' s
         = (if unat (ledDelay s) < T1 - T0 then loop_due now' s else (s, []))"
proof -
  have "(of_nat T1 :: ulong) - of_nat T0 = of_nat (T1 - T0)"
    using assms(1) by (simp add: of_nat_diff)
  moreover have "T1 - T0 < 2 ^ 32" using assms(2) by simp
  then have "unat (of_nat (T1 - T0) :: ulong) = T1 - T0"
    by (simp add: unat_of_nat)
  ultimately have "unat (of_nat T1 - ledLastTimeChanged s) = T1 - T0"
    using assms(3) by simp
  then show ?thesis
    by (simp add: loop_def word_less_nat_alt)
qed

text \<open>
  An instance with a wrap-around: armed at true time \<open>2^32 - 6\<close> with a delay of 100 ms
  and polled at true time \<open>2^32 + 104\<close> (the clock shows 104), the transition fires.
\<close>

theorem due_check_wraparound_witness:
  "(4294967290::nat) \<le> 4294967400 \<and> (4294967400::nat) - 4294967290 \<le> 2 ^ 31
   \<and> ledLastTimeChanged armed_before_wrap = of_nat 4294967290
   \<and> (of_nat 4294967400 :: ulong) = 104
   \<and> unat (ledDelay armed_before_wrap) < 4294967400 - 4294967290
   \<and> loop (of_nat 4294967400) 105 armed_before_wrap = loop_due 105 armed_before_wrap
   \<and> ledLevel (fst (loop (of_nat 4294967400) 105 armed_before_wrap)) = 0"
proof -
  have h1: "(4294967290::nat) \<le> 4294967400" by simp
  have h2: "(4294967400::nat) - 4294967290 \<le> 2 ^ 31" by simp
  have h3: "ledLastTimeChanged armed_before_wrap = of_nat 4294967290"
    by (simp add: armed_before_wrap_def setBlink_def setLed_eq Let_def)
  have d: "unat (ledDelay armed_before_wrap) < 4294967400 - 4294967290"
    by (simp add: armed_before_wrap_def setBlink_def setLed_eq Let_def)
  have w: "(of_nat 4294967400 :: ulong) = 104" by simp
  have l: "ledLevel (fst (loop_due 105 armed_before_wrap)) = 0"
    by (simp add: armed_before_wrap_def setBlink_def loop_due_def setLed_eq Let_def FF_LED_new_def)
  show ?thesis
    using h1 h2 h3 d w l due_check_wraparound[OF h1 h2 h3, of 105] by simp
qed

section \<open>Fixed mode\<close>

lemma loop_wait_for_ever: "ledDelay s = FF_LED_WAIT_FOR_EVER \<Longrightarrow> loop now now' s = (s, [])"
proof -
  assume d: "ledDelay s = FF_LED_WAIT_FOR_EVER"
  have "(4294967295::ulong) = - 1" by simp
  then have "now - ledLastTimeChanged s \<le> FF_LED_WAIT_FOR_EVER"
    unfolding FF_LED_WAIT_FOR_EVER_def by (simp only: word_n1_ge)
  then show ?thesis by (simp add: loop_def d not_less[symmetric])
qed

lemma polls_wait_for_ever: "ledDelay s = FF_LED_WAIT_FOR_EVER \<Longrightarrow> polls ps s = (s, [])"
  by (induction ps) (simp_all add: loop_wait_for_ever)

text \<open>
  Claim C6. After \<open>setFixed\<close>, and after \<open>begin()\<close>, the armed delay is the sentinel
  4294967295, and no run of polls, whatever the clock readings, changes a field of the
  state or makes a hardware call. (After \<open>setFixed\<close>, and after \<open>begin()\<close> on a
  newly constructed object, the mode is \<open>fixed\<close>, for which the body of \<open>loop()\<close> has
  no branch.)
\<close>

theorem fixed_mode_never_fires:
  "ledDelay (fst (setFixed level t s)) = 4294967295
   \<and> ledMode (fst (setFixed level t s)) = fixed
   \<and> ledDelay (fst (begin_led t s)) = 4294967295
   \<and> ledMode (fst (begin_led t (FF_LED_new pin isReverted level))) = fixed
   \<and> polls ps (fst (setFixed level t s)) = (fst (setFixed level t s), [])
   \<and> polls ps (fst (begin_led t s)) = (fst (begin_led t s), [])
   \<and> loop_due t' (fst (setFixed level t s)) = (fst (setFixed level t s), [])"
proof -
  have a: "ledDelay (fst (setFixed level t s)) = FF_LED_WAIT_FOR_EVER"
    and b: "ledDelay (fst (begin_led t s)) = FF_LED_WAIT_FOR_EVER"
    and m: "ledMode (fst (setFixed level t s)) = fixed"
    and m': "ledMode (fst (begin_led t (FF_LED_new pin isReverted level))) = fixed"
    by (simp_all add: setFixed_def begin_led_def setLed_eq Let_def FF_LED_new_def)
  have c: "loop_due t' (fst (setFixed level t s)) = (fst (setFixed level t s), [])"
    using m by (simp add: loop_due_def)
  show ?thesis
    using a b m m' c polls_wait_for_ever[OF a] polls_wait_for_ever[OF b]
    by (simp add: FF_LED_WAIT_FOR_EVER_def)
qed

text \<open>
  An instance: a channel switched from blinking to a fixed level, and a new channel
  after \<open>begin()\<close>, polled at three times.
\<close>

theorem fixed_mode_never_fires_witness:
  "ledDelay (fst (setFixed 128 0 (fst (setBlink 3 100 50 500 0 255 0 (FF_LED_new 13 False 0))))) = 4294967295
   \<and> polls [(1000, 1000), (4294967295, 4294967295), (0, 0)]
        (fst (setFixed 128 0 (fst (setBlink 3 100 50 500 0 255 0 (FF_LED_new 13 False 0)))))
      = (fst (setFixed 128 0 (fst (setBlink 3 100 50 500 0 255 0 (FF_LED_new 13 False 0)))), [])
   \<and> polls [(1000, 1000), (4294967295, 4294967295), (0, 0)]
        (fst (begin_led 0 (FF_LED_new 13 False 7)))
      = (fst (begin_led 0 (FF_LED_new 13 False 7)), [])"
  using fixed_mode_never_fires[where level = 128 and t = 0
        and s = "fst (setBlink 3 100 50 500 0 255 0 (FF_LED_new 13 False 0))"
        and ps = "[(1000, 1000), (4294967295, 4294967295), (0, 0)]"]
    fixed_mode_never_fires[where t = 0 and s = "FF_LED_new 13 False 7"
        and ps = "[(1000, 1000), (4294967295, 4294967295), (0, 0)]"]
  by blast

section \<open>Hardware writes of the extreme levels\<close>

text \<open>
  Claim C4 (defect of the code). A reverted LED is "turned on when pin level is low"
  (\<open>FF_LED.h\<close>), so on a reverted channel level 255 has to drive the pin low: the
  binary off write, \<open>digitalWrite\<close> of the value 0. \<open>setLed\<close> passes the stored
  \<open>ledMinLevel\<close> instead of a constant. On a reverted channel on pin 13 after
  \<open>setPulse(true, 1, 1, 5, 254, 255)\<close>, armed at time 0, the poll at time 2 commits
  level 255 with \<open>digitalWrite(13, 254)\<close>; after \<open>setBlink(1, 100, 50, 500, 10, 200)\<close>
  the call \<open>setFixed(255)\<close> makes \<open>digitalWrite(13, 10)\<close>. Both values are not 0, so
  the pin is driven high and the LED is dark at full level. Only while the stored
  minimum is 0, as on a newly constructed channel, is the value written 0.
\<close>

theorem reverted_full_level_writes_stored_minimum:
  "ledReverted (fst (setPulse True 1 1 5 254 255 0 (FF_LED_new 13 True 0)))
   \<and> ledLevel (fst (loop 2 2 (fst (setPulse True 1 1 5 254 255 0 (FF_LED_new 13 True 0))))) = 255
   \<and> snd (loop 2 2 (fst (setPulse True 1 1 5 254 255 0 (FF_LED_new 13 True 0))))
       = [digitalWrite 13 254]
   \<and> snd (setFixed 255 700 (fst (setBlink 1 100 50 500 10 200 0 (FF_LED_new 13 True 0))))
       = [digitalWrite 13 10]
   \<and> snd (setFixed 255 0 (FF_LED_new 13 True 0)) = [digitalWrite 13 0]"
  by (simp add: setPulse_def setBlink_def setFixed_def loop_def loop_due_def setLed_def
      FF_LED_new_def Let_def)

lemma setLed_extreme_writes: "snd (setLed 0 d t s)
     = [digitalWrite (ledPin s) (if ledReverted s then ledMaxLevel s else ledMinLevel s)]"
  "snd (setLed 255 d t s)
     = [digitalWrite (ledPin s) (if ledReverted s then ledMinLevel s else ledMaxLevel s)]"
  by (simp_all add: setLed_def Let_def)

text \<open>
  Claim C10. The binary writes pass the stored \<open>ledMinLevel\<close> and \<open>ledMaxLevel\<close> as
  the pin value: level 0 writes \<open>ledMinLevel\<close> and level 255 writes \<open>ledMaxLevel\<close>
  with normal polarity, and the two are swapped when the channel is reverted. The bounds
  stored by an earlier \<open>setBlink\<close> or \<open>setPulse\<close> are still the ones written by a later
  \<open>setFixed\<close>; so the write for level 0 has the value 0 only if the stored minimum
  is 0.
\<close>

theorem binary_writes_use_stored_levels:
  "snd (setLed 0 d t s)
     = [digitalWrite (ledPin s) (if ledReverted s then ledMaxLevel s else ledMinLevel s)]
   \<and> snd (setLed 255 d t s)
     = [digitalWrite (ledPin s) (if ledReverted s then ledMinLevel s else ledMaxLevel s)]
   \<and> snd (setFixed 0 t (fst (setBlink n onTime offTime waitTime minLevel maxLevel t0 s)))
     = [digitalWrite (ledPin s) (if ledReverted s then maxLevel else minLevel)]
   \<and> snd (setFixed 255 t (fst (setBlink n onTime offTime waitTime minLevel maxLevel t0 s)))
     = [digitalWrite (ledPin s) (if ledReverted s then minLevel else maxLevel)]
   \<and> snd (setFixed 0 t (fst (setPulse increase onTime offTime waitTime minLevel maxLevel t0 s)))
     = [digitalWrite (ledPin s) (if ledReverted s then maxLevel else minLevel)]
   \<and> snd (setFixed 255 t (fst (setPulse increase onTime offTime waitTime minLevel maxLevel t0 s)))
     = [digitalWrite (ledPin s) (if ledReverted s then minLevel else maxLevel)]"
  unfolding setFixed_snd led_write_0 led_write_255 setBlink_fields setPulse_fields
  using setLed_extreme_writes[of d t s] by blast

text \<open>
  An instance: after \<open>setBlink(1, 100, 50, 500, 10, 200)\<close> the call \<open>setFixed(0)\<close>
  writes the value 10 to the pin, and \<open>setFixed(255)\<close> writes 200.
\<close>

theorem binary_writes_use_stored_levels_witness:
  "snd (setFixed 0 700 (fst (setBlink 1 100 50 500 10 200 0 (FF_LED_new 13 False 0))))
     = [digitalWrite 13 10]
   \<and> snd (setFixed 255 700 (fst (setBlink 1 100 50 500 10 200 0 (FF_LED_new 13 False 0))))
     = [digitalWrite 13 200]
   \<and> snd (setFixed 0 700 (fst (setPulse True 100 50 500 10 200 0 (FF_LED_new 13 True 0))))
     = [digitalWrite 13 200]
   \<and> snd (setLed 0 5 700 (FF_LED_new 13 False 0)) = [digitalWrite 13 0]"
proof -
  have f: "ledPin (FF_LED_new 13 False 0) = 13" "\<not> ledReverted (FF_LED_new 13 False 0)"
    "ledPin (FF_LED_new 13 True 0) = 13" "ledReverted (FF_LED_new 13 True 0)"
    "ledMinLevel (FF_LED_new 13 False 0) = 0"
    by (simp_all add: FF_LED_new_def)
  show ?thesis
    using binary_writes_use_stored_levels[of 5 700 "FF_LED_new 13 False 0" 1 100 50 500 10 200 0 True]
      binary_writes_use_stored_levels[of 5 700 "FF_LED_new 13 True 0" 1 100 50 500 10 200 0 True]
    by (simp add: f)
qed

section \<open>Blink mode\<close>












text \<open>
  Claim C5, as stated for every \<open>minLevel\<close> and \<open>maxLevel\<close>, fails when the two are
  equal: after \<open>setBlink(0, 100, 50, 500, 5, 5)\<close> the level equals \<open>maxLevel\<close> at once,
  and the first due poll takes the branch of a lit LED and arms \<open>offTime = 50\<close>, not
  \<open>waitTime = 500\<close>.
\<close>

theorem zero_blink_equal_levels_counterexample:
  "ledDelay (fst (loop 501 501 (fst (setBlink 0 100 50 500 5 5 0 (FF_LED_new 13 False 0))))) = 50
   \<and> ledDelay (fst (loop 501 501 (fst (setBlink 0 100 50 500 5 5 0 (FF_LED_new 13 False 0))))) \<noteq> 500
   \<and> ledLevel (fst (setBlink 0 100 50 500 5 5 0 (FF_LED_new 13 False 0)))
       = ledMaxLevel (fst (setBlink 0 100 50 500 5 5 0 (FF_LED_new 13 False 0)))"
  by (simp add: setBlink_def loop_def loop_due_def setLed_def FF_LED_new_def Let_def)

lemma zero_blink_step:
  "ledMode s = blink \<Longrightarrow> ledBlinksNeeded s = 0 \<Longrightarrow> ledLevel s = ledMinLevel s \<Longrightarrow>
   ledMinLevel s \<noteq> ledMaxLevel s \<Longrightarrow>
   loop_due t s = (s\<lparr>ledBlinksDone := 0, ledDelay := ledWaitDelay s, ledLastTimeChanged := t\<rparr>,
                   led_write s (ledMinLevel s))"
  by (simp add: loop_due_def setLed_eq Let_def)

lemma zero_blink_polls:
  "ledMode s = blink \<Longrightarrow> ledBlinksNeeded s = 0 \<Longrightarrow> ledLevel s = ledMinLevel s \<Longrightarrow>
   ledMinLevel s \<noteq> ledMaxLevel s \<Longrightarrow> ledDelay s = ledWaitDelay s \<Longrightarrow>
   ledLevel (fst (polls ps s)) = ledMinLevel s \<and> ledDelay (fst (polls ps s)) = ledWaitDelay s
   \<and> set (snd (polls ps s)) \<subseteq> set (led_write s (ledMinLevel s))"
proof (induction ps arbitrary: s)
  case Nil
  then show ?case by simp
next
  case (Cons p ps)
  show ?case
  proof (cases "fst p - ledLastTimeChanged s > ledDelay s")
    case True
    let ?s1 = "s\<lparr>ledBlinksDone := 0, ledDelay := ledWaitDelay s, ledLastTimeChanged := snd p\<rparr>"
    have l: "loop (fst p) (snd p) s = (?s1, led_write s (ledMinLevel s))"
      using True zero_blink_step[OF Cons.prems(1-4)] by (simp add: loop_def)
    have ih: "ledLevel (fst (polls ps ?s1)) = ledMinLevel ?s1 \<and> ledDelay (fst (polls ps ?s1)) = ledWaitDelay ?s1
      \<and> set (snd (polls ps ?s1)) \<subseteq> set (led_write ?s1 (ledMinLevel ?s1))"
      using Cons.prems by (intro Cons.IH) simp_all
    show ?thesis using ih Cons.prems(3) by (auto simp: l split: prod.splits)
  next
    case False
    then have l: "loop (fst p) (snd p) s = (s, [])" by (simp add: loop_def)
    show ?thesis using Cons.IH[OF Cons.prems] by (auto simp: l split: prod.splits)
  qed
qed

lemma zero_blink_due_run:
  "ledMode s = blink \<Longrightarrow> ledBlinksNeeded s = 0 \<Longrightarrow> ledLevel s = ledMinLevel s \<Longrightarrow>
   ledMinLevel s \<noteq> ledMaxLevel s \<Longrightarrow>
   map commit (due_run ts s) =
     replicate (length ts) (ledMinLevel s, ledWaitDelay s, led_write s (ledMinLevel s))"
proof (induction ts arbitrary: s)
  case Nil
  then show ?case by simp
next
  case (Cons t ts)
  let ?s1 = "s\<lparr>ledBlinksDone := 0, ledDelay := ledWaitDelay s, ledLastTimeChanged := t\<rparr>"
  have l: "loop_due t s = (?s1, led_write s (ledMinLevel s))"
    using zero_blink_step[OF Cons.prems(1-4)] by simp
  have ih: "map commit (due_run ts ?s1) =
     replicate (length ts) (ledMinLevel ?s1, ledWaitDelay ?s1, led_write ?s1 (ledMinLevel ?s1))"
    using Cons.prems by (intro Cons.IH) simp_all
  have h: "commit (loop_due t s) = (ledMinLevel s, ledWaitDelay s, led_write s (ledMinLevel s))"
    using Cons.prems(3) by (simp add: l commit_def)
  show ?case using ih h by (simp add: l)
qed

text \<open>
  Claim C5, amended: after \<open>setBlink\<close> with \<open>blinkCount = 0\<close> and
  \<open>minLevel \<noteq> maxLevel\<close>, the channel is at \<open>minLevel\<close> with delay \<open>waitTime\<close>;
  every later transition commits \<open>minLevel\<close> again and arms \<open>waitTime\<close> again; and
  after any run of polls the level is \<open>minLevel\<close>, different from \<open>maxLevel\<close>, and the
  delay is \<open>waitTime\<close>.
\<close>

theorem zero_blink_parks:
  assumes "minLevel \<noteq> maxLevel"
  shows "commit (setBlink 0 onTime offTime waitTime minLevel maxLevel t0 s)
           = (minLevel, waitTime,
              led_write (fst (setBlink 0 onTime offTime waitTime minLevel maxLevel t0 s)) minLevel)
    \<and> map commit (due_run ts (fst (setBlink 0 onTime offTime waitTime minLevel maxLevel t0 s)))
           = replicate (length ts) (minLevel, waitTime,
              led_write (fst (setBlink 0 onTime offTime waitTime minLevel maxLevel t0 s)) minLevel)
    \<and> ledLevel (fst (polls ps (fst (setBlink 0 onTime offTime waitTime minLevel maxLevel t0 s)))) = minLevel
    \<and> ledLevel (fst (polls ps (fst (setBlink 0 onTime offTime waitTime minLevel maxLevel t0 s)))) \<noteq> maxLevel
    \<and> ledDelay (fst (polls ps (fst (setBlink 0 onTime offTime waitTime minLevel maxLevel t0 s)))) = waitTime"
proof -
  define s0 where "s0 = fst (setBlink 0 onTime offTime waitTime minLevel maxLevel t0 s)"
  have f0: "ledMode s0 = blink" "ledBlinksNeeded s0 = 0" "ledLevel s0 = ledMinLevel s0"
    "ledMinLevel s0 = minLevel" "ledMaxLevel s0 = maxLevel" "ledDelay s0 = ledWaitDelay s0"
    "ledWaitDelay s0 = waitTime"
    by (simp_all add: s0_def setBlink_def setLed_eq Let_def)
  have c0: "commit (setBlink 0 onTime offTime waitTime minLevel maxLevel t0 s)
           = (minLevel, waitTime, led_write s0 minLevel)"
    by (simp add: s0_def commit_def setBlink_def setLed_eq Let_def
        led_write_cong[of "s\<lparr>ledBlinksNeeded := 0, ledBlinksDone := 0, ledMinLevel := minLevel, ledMaxLevel := maxLevel, ledMode := blink, ledOnDelay := onTime, ledOffDelay := offTime, ledWaitDelay := waitTime\<rparr>"])
  have r: "map commit (due_run ts s0) = replicate (length ts) (minLevel, waitTime, led_write s0 minLevel)"
    using zero_blink_due_run[of s0 ts] f0 assms by simp
  have p: "ledLevel (fst (polls ps s0)) = minLevel \<and> ledDelay (fst (polls ps s0)) = waitTime"
    using zero_blink_polls[of s0 ps] f0 assms by simp
  show ?thesis
    using c0 r p assms unfolding s0_def by simp
qed

text \<open>
  An instance: \<open>setBlink(0, 100, 50, 500)\<close> with the default levels 0 and 255.
\<close>

theorem zero_blink_parks_witness:
  "(0::uint8_t) \<noteq> 255
   \<and> commit (setBlink 0 100 50 500 0 255 0 (FF_LED_new 13 False 0)) = (0, 500, [digitalWrite 13 0])
   \<and> map commit (due_run [501, 1002, 1503] (fst (setBlink 0 100 50 500 0 255 0 (FF_LED_new 13 False 0))))
       = [(0, 500, [digitalWrite 13 0]), (0, 500, [digitalWrite 13 0]), (0, 500, [digitalWrite 13 0])]
   \<and> ledLevel (fst (polls [(400, 400), (501, 501), (1002, 1003)]
          (fst (setBlink 0 100 50 500 0 255 0 (FF_LED_new 13 False 0))))) = 0
   \<and> ledDelay (fst (polls [(400, 400), (501, 501), (1002, 1003)]
          (fst (setBlink 0 100 50 500 0 255 0 (FF_LED_new 13 False 0))))) = 500"
proof -
  have h: "(0::uint8_t) \<noteq> 255" by simp
  have w: "led_write (fst (setBlink 0 100 50 500 0 255 0 (FF_LED_new 13 False 0))) 0 = [digitalWrite 13 0]"
    by (simp add: led_write_def setBlink_def setLed_def FF_LED_new_def Let_def)
  show ?thesis
    using h zero_blink_parks[OF h, of 100 50 500 0 "FF_LED_new 13 False 0" "[501, 1002, 1503]"
        "[(400, 400), (501, 501), (1002, 1003)]"]
    by (simp add: w)
qed

section \<open>Pulse mode\<close>



















lemma pulse_demo_peak:
  "fst (polls [(21, 21), (42, 42), (63, 63), (84, 84), (105, 105), (126, 126), (147, 147),
               (168, 168), (189, 189), (210, 210), (231, 231)] pulse_demo)
   = pulse_demo\<lparr>ledLevel := 10, ledPulseIncrement := - 1, ledDelay := 20, ledLastTimeChanged := 231\<rparr>"
  by (simp add: pulse_demo_def FF_LED_new_def setPulse_def loop_def loop_due_def setLed_eq Let_def)

text \<open>
  Claim C1, as stated, fails: with \<open>setPulse(true, 20, 20, 1000, 0, 10)\<close>, armed at
  time 0 and polled every 21 ms, the 11th transition is the reversal at the peak. It
  clamps at \<open>maxLevel = 10\<close> and flips the increment to -1, but the delay it arms is
  \<open>downTime = 20\<close>, not \<open>waitTime = 1000\<close>: there is no pause at the peak when
  \<open>increase\<close> is true.
\<close>

theorem pulse_pause_at_peak_counterexample:
  "ledLevel (fst (polls [(21, 21), (42, 42), (63, 63), (84, 84), (105, 105), (126, 126), (147, 147),
               (168, 168), (189, 189), (210, 210), (231, 231)] pulse_demo)) = ledMaxLevel pulse_demo
   \<and> ledPulseIncrement (fst (polls [(21, 21), (42, 42), (63, 63), (84, 84), (105, 105), (126, 126), (147, 147),
               (168, 168), (189, 189), (210, 210), (231, 231)] pulse_demo)) = - 1
   \<and> ledDelay (fst (polls [(21, 21), (42, 42), (63, 63), (84, 84), (105, 105), (126, 126), (147, 147),
               (168, 168), (189, 189), (210, 210), (231, 231)] pulse_demo)) = 20
   \<and> ledDelay (fst (polls [(21, 21), (42, 42), (63, 63), (84, 84), (105, 105), (126, 126), (147, 147),
               (168, 168), (189, 189), (210, 210), (231, 231)] pulse_demo)) \<noteq> ledWaitDelay pulse_demo
   \<and> ledIncrease pulse_demo \<and> ledWaitDelay pulse_demo = 1000"
  unfolding pulse_demo_peak
  by (simp add: pulse_demo_def FF_LED_new_def setPulse_def setLed_eq Let_def)

lemma list23:
  assumes "length ts = 23"
  obtains t1 t2 t3 t4 t5 t6 t7 t8 t9 t10 t11 t12 t13 t14 t15 t16 t17 t18 t19 t20 t21 t22 t23
  where "ts = [t1, t2, t3, t4, t5, t6, t7, t8, t9, t10, t11, t12, t13, t14, t15, t16, t17, t18,
               t19, t20, t21, t22, t23]"
  using assms by (auto simp: length_Suc_conv eval_nat_numeral)

lemma pulse_scenario:
  assumes "length ts = 23"
  shows "map phase (map fst (setPulse True 20 20 1000 0 10 t0 s
            # due_run ts (fst (setPulse True 20 20 1000 0 10 t0 s))))
     = [(0, 20), (1, 20), (2, 20), (3, 20), (4, 20), (5, 20), (6, 20), (7, 20), (8, 20),
        (9, 20), (10, 20),
        (10, 20), (9, 20), (8, 20), (7, 20), (6, 20), (5, 20), (4, 20), (3, 20), (2, 20),
        (1, 20), (0, 20),
        (0, 1000), (1, 20)]"
proof -
  obtain t1 t2 t3 t4 t5 t6 t7 t8 t9 t10 t11 t12 t13 t14 t15 t16 t17 t18 t19 t20 t21 t22 t23
    where ts: "ts = [t1, t2, t3, t4, t5, t6, t7, t8, t9, t10, t11, t12, t13, t14, t15, t16, t17, t18,
               t19, t20, t21, t22, t23]"
    by (rule list23[OF assms])
  show ?thesis
    unfolding ts by (simp add: setPulse_def loop_due_def setLed_eq Let_def phase_def)
qed

text \<open>
  Claim C1, amended: in pulse mode, when ascending would overshoot \<open>maxLevel\<close>,
  \<open>loop()\<close> clamps at \<open>maxLevel\<close>, flips the increment to -1 and arms \<open>downTime\<close>
  if \<open>increase\<close> is true, \<open>waitTime\<close> if it is false (pause at the peak); when
  descending would undershoot \<open>minLevel\<close>, it clamps at \<open>minLevel\<close>, flips the
  increment to +1 and arms \<open>waitTime\<close> if \<open>increase\<close> is true (pause at the
  trough), \<open>upTime\<close> if it is false. In particular \<open>setPulse(true, 20, 20, 1000, 0, 10)\<close>
  commits the levels 0, 1, ..., 10 with 20 ms each, commits 10 again at the reversal
  with 20 ms (no pause at the peak), then 9, 8, ..., 0 with 20 ms each, then commits 0
  again at the reversal with a pause of 1000 ms, and then ascends again.
\<close>

theorem pulse_reversal_pause:
  "(ledMode s = pulse \<and> 0 < sint (ledPulseIncrement s)
      \<and> uint (ledMaxLevel s) < uint (ledLevel s) + sint (ledPulseIncrement s) \<longrightarrow>
      phase (fst (loop_due t s))
        = (ledMaxLevel s, if ledIncrease s then ledOffDelay s else ledWaitDelay s)
      \<and> ledPulseIncrement (fst (loop_due t s)) = - 1)
   \<and> (ledMode s = pulse \<and> \<not> 0 < sint (ledPulseIncrement s)
      \<and> uint (ledLevel s) + sint (ledPulseIncrement s) < uint (ledMinLevel s) \<longrightarrow>
      phase (fst (loop_due t s))
        = (ledMinLevel s, if ledIncrease s then ledWaitDelay s else ledOnDelay s)
      \<and> ledPulseIncrement (fst (loop_due t s)) = 1)
   \<and> (length ts = 23 \<longrightarrow>
      map phase (map fst (setPulse True 20 20 1000 0 10 t0 s0
            # due_run ts (fst (setPulse True 20 20 1000 0 10 t0 s0))))
      = [(0, 20), (1, 20), (2, 20), (3, 20), (4, 20), (5, 20), (6, 20), (7, 20), (8, 20),
         (9, 20), (10, 20),
         (10, 20), (9, 20), (8, 20), (7, 20), (6, 20), (5, 20), (4, 20), (3, 20), (2, 20),
         (1, 20), (0, 20),
         (0, 1000), (1, 20)])"
proof (intro conjI impI)
  assume "length ts = 23"
  then show "map phase (map fst (setPulse True 20 20 1000 0 10 t0 s0
            # due_run ts (fst (setPulse True 20 20 1000 0 10 t0 s0))))
      = [(0, 20), (1, 20), (2, 20), (3, 20), (4, 20), (5, 20), (6, 20), (7, 20), (8, 20),
         (9, 20), (10, 20),
         (10, 20), (9, 20), (8, 20), (7, 20), (6, 20), (5, 20), (4, 20), (3, 20), (2, 20),
         (1, 20), (0, 20),
         (0, 1000), (1, 20)]"
    by (rule pulse_scenario)
qed (simp_all add: loop_due_def setLed_eq Let_def phase_def)

lemma at_peak_eq:
  "at_peak = pulse_demo\<lparr>ledLevel := 10, ledLastTimeChanged := 210\<rparr>"
  by (simp add: at_peak_def pulse_demo_def FF_LED_new_def setPulse_def loop_due_def setLed_eq Let_def)

lemma at_trough_eq:
  "at_trough = pulse_demo\<lparr>ledPulseIncrement := - 1, ledLastTimeChanged := 441\<rparr>"
  by (simp add: at_trough_def pulse_demo_def FF_LED_new_def setPulse_def loop_due_def setLed_eq Let_def)

text \<open>
  An instance: the reversals of the example channel at the peak and at the trough, and
  its first 23 transitions, each at the first millisecond at which it is due.
\<close>

theorem pulse_reversal_pause_witness:
  "(ledMode at_peak = pulse \<and> 0 < sint (ledPulseIncrement at_peak)
      \<and> uint (ledMaxLevel at_peak) < uint (ledLevel at_peak) + sint (ledPulseIncrement at_peak))
   \<and> phase (fst (loop_due 231 at_peak)) = (10, 20)
   \<and> ledPulseIncrement (fst (loop_due 231 at_peak)) = - 1
   \<and> (ledMode at_trough = pulse \<and> \<not> 0 < sint (ledPulseIncrement at_trough)
      \<and> uint (ledLevel at_trough) + sint (ledPulseIncrement at_trough) < uint (ledMinLevel at_trough))
   \<and> phase (fst (loop_due 462 at_trough)) = (0, 1000)
   \<and> ledPulseIncrement (fst (loop_due 462 at_trough)) = 1
   \<and> length [21, 42, 63, 84, 105, 126, 147, 168, 189, 210, 231, 252, 273, 294, 315,
              336, 357, 378, 399, 420, 441, 462, 1463 :: ulong] = 23
   \<and> map phase (map fst (setPulse True 20 20 1000 0 10 0 (FF_LED_new 13 False 0)
            # due_run [21, 42, 63, 84, 105, 126, 147, 168, 189, 210, 231, 252, 273, 294, 315,
                       336, 357, 378, 399, 420, 441, 462, 1463]
                (fst (setPulse True 20 20 1000 0 10 0 (FF_LED_new 13 False 0)))))
      = [(0, 20), (1, 20), (2, 20), (3, 20), (4, 20), (5, 20), (6, 20), (7, 20), (8, 20),
         (9, 20), (10, 20),
         (10, 20), (9, 20), (8, 20), (7, 20), (6, 20), (5, 20), (4, 20), (3, 20), (2, 20),
         (1, 20), (0, 20),
         (0, 1000), (1, 20)]"
proof -
  have f: "ledMode at_peak = pulse" "ledPulseIncrement at_peak = 1" "ledLevel at_peak = 10"
    "ledMaxLevel at_peak = 10" "ledIncrease at_peak" "ledOffDelay at_peak = 20"
    "ledMode at_trough = pulse" "ledPulseIncrement at_trough = - 1" "ledLevel at_trough = 0"
    "ledMinLevel at_trough = 0" "ledIncrease at_trough" "ledWaitDelay at_trough = 1000"
    by (simp_all add: at_peak_eq at_trough_eq pulse_demo_def FF_LED_new_def setPulse_def setLed_eq Let_def)
  have p: "ledMode at_peak = pulse \<and> 0 < sint (ledPulseIncrement at_peak)
      \<and> uint (ledMaxLevel at_peak) < uint (ledLevel at_peak) + sint (ledPulseIncrement at_peak)"
    by (simp add: f)
  have q: "ledMode at_trough = pulse \<and> \<not> 0 < sint (ledPulseIncrement at_trough)
      \<and> uint (ledLevel at_trough) + sint (ledPulseIncrement at_trough) < uint (ledMinLevel at_trough)"
    by (simp add: f)
  have l: "length [21, 42, 63, 84, 105, 126, 147, 168, 189, 210, 231, 252, 273, 294, 315,
              336, 357, 378, 399, 420, 441, 462, 1463 :: ulong] = 23" by simp
  have a: "phase (fst (loop_due 231 at_peak)) = (10, 20) \<and> ledPulseIncrement (fst (loop_due 231 at_peak)) = - 1"
    using pulse_reversal_pause[of at_peak 231 "[]" 0 at_peak] p f by simp
  have b: "phase (fst (loop_due 462 at_trough)) = (0, 1000) \<and> ledPulseIncrement (fst (loop_due 462 at_trough)) = 1"
    using pulse_reversal_pause[of at_trough 462 "[]" 0 at_trough] q f by simp
  have c: "map phase (map fst (setPulse True 20 20 1000 0 10 0 (FF_LED_new 13 False 0)
            # due_run [21, 42, 63, 84, 105, 126, 147, 168, 189, 210, 231, 252, 273, 294, 315,
                       336, 357, 378, 399, 420, 441, 462, 1463]
                (fst (setPulse True 20 20 1000 0 10 0 (FF_LED_new 13 False 0)))))
      = [(0, 20), (1, 20), (2, 20), (3, 20), (4, 20), (5, 20), (6, 20), (7, 20), (8, 20),
         (9, 20), (10, 20),
         (10, 20), (9, 20), (8, 20), (7, 20), (6, 20), (5, 20), (4, 20), (3, 20), (2, 20),
         (1, 20), (0, 20),
         (0, 1000), (1, 20)]"
    using pulse_reversal_pause[of at_peak 0 "[21, 42, 63, 84, 105, 126, 147, 168, 189, 210, 231, 252, 273, 294, 315,
                       336, 357, 378, 399, 420, 441, 462, 1463]" 0 "FF_LED_new 13 False 0"] l by blast
  show ?thesis using p q l a b c by blast
qed

section \<open>The range of the level\<close>

lemma uint_cast_in_range:
  assumes "uint (a::8 word) \<le> k" "k \<le> uint (b::8 word)"
  shows "uint (word_of_int k :: 8 word) = k"
proof -
  have "0 \<le> uint a" by simp
  moreover have "uint b < 256" using uint_lt2p[of b] by simp
  ultimately have "0 \<le> k" "k < 256" using assms by linarith+
  then show ?thesis by (simp add: uint_word_of_int)
qed

lemma loop_due_keeps_bounds:
  "ledMinLevel (fst (loop_due t s)) = ledMinLevel s \<and> ledMaxLevel (fst (loop_due t s)) = ledMaxLevel s
   \<and> ledMode (fst (loop_due t s)) = ledMode s"
  by (simp add: loop_due_def setLed_eq Let_def)

lemma loop_due_blink_range:
  assumes "ledMode s = blink" "ledMinLevel s \<le> ledMaxLevel s"
  shows "level_in_range (fst (loop_due t s))"
  using assms by (simp add: loop_due_def setLed_eq Let_def level_in_range_def)

lemma loop_due_pulse_range:
  assumes "ledMode s = pulse" "ledMinLevel s \<le> ledMaxLevel s" "level_in_range s"
  shows "level_in_range (fst (loop_due t s))"
proof -
  define k where "k = uint (ledLevel s) + sint (ledPulseIncrement s)"
  have r: "uint (ledMinLevel s) \<le> uint (ledLevel s)" "uint (ledLevel s) \<le> uint (ledMaxLevel s)"
    "uint (ledMinLevel s) \<le> uint (ledMaxLevel s)"
    using assms(2,3) by (simp_all add: level_in_range_def word_le_def)
  have mid: "level_in_range (s\<lparr>ledLevel := word_of_int k, ledDelay := d, ledLastTimeChanged := t\<rparr>)"
    if "uint (ledMinLevel s) \<le> k" "k \<le> uint (ledMaxLevel s)" for d
    using that uint_cast_in_range[OF that] by (simp add: level_in_range_def word_le_def)
  have up: "uint (ledMinLevel s) \<le> k" if "0 < sint (ledPulseIncrement s)"
    using that r by (simp add: k_def)
  have dn: "k \<le> uint (ledMaxLevel s)" if "\<not> 0 < sint (ledPulseIncrement s)"
    using that r by (simp add: k_def)
  show ?thesis
  proof (cases "0 < sint (ledPulseIncrement s)")
    case True
    show ?thesis
    proof (cases "uint (ledMaxLevel s) < k")
      case over: True
      then show ?thesis
        using assms(1,2) True by (simp add: loop_due_def setLed_eq Let_def level_in_range_def k_def)
    next
      case False
      then have "k \<le> uint (ledMaxLevel s)" by simp
      from mid[OF up[OF True] this] show ?thesis
        using assms(1) True False by (simp add: loop_due_def setLed_eq Let_def k_def)
    qed
  next
    case False
    show ?thesis
    proof (cases "k < uint (ledMinLevel s)")
      case under: True
      then show ?thesis
        using assms(1,2) False by (simp add: loop_due_def setLed_eq Let_def level_in_range_def k_def)
    next
      case nu: False
      then have "uint (ledMinLevel s) \<le> k" by simp
      from mid[OF this dn[OF False]] show ?thesis
        using assms(1) False nu by (simp add: loop_due_def setLed_eq Let_def k_def)
    qed
  qed
qed

lemma loop_keeps_range:
  assumes "ledMinLevel s \<le> ledMaxLevel s" "level_in_range s"
  shows "level_in_range (fst (loop now now' s))"
proof (cases "ledMode s")
  case fixed
  then show ?thesis using assms(2) by (simp add: loop_def loop_due_def)
next
  case blink
  then show ?thesis using assms loop_due_blink_range[of s now'] by (simp add: loop_def)
next
  case pulse
  then show ?thesis using assms loop_due_pulse_range[of s now'] by (simp add: loop_def)
qed

lemma loop_keeps_bounds:
  "ledMinLevel (fst (loop now now' s)) = ledMinLevel s \<and> ledMaxLevel (fst (loop now now' s)) = ledMaxLevel s"
  using loop_due_keeps_bounds[of now' s] by (simp add: loop_def)

lemma polls_keep_range:
  "ledMinLevel s \<le> ledMaxLevel s \<Longrightarrow> level_in_range s \<Longrightarrow>
   level_in_range (fst (polls ps s)) \<and> ledMinLevel (fst (polls ps s)) = ledMinLevel s
   \<and> ledMaxLevel (fst (polls ps s)) = ledMaxLevel s"
proof (induction ps arbitrary: s)
  case Nil
  then show ?case by simp
next
  case (Cons p ps)
  define s1 where "s1 = fst (loop (fst p) (snd p) s)"
  have b: "ledMinLevel s1 = ledMinLevel s" "ledMaxLevel s1 = ledMaxLevel s"
    using loop_keeps_bounds[of "fst p" "snd p" s] by (simp_all add: s1_def)
  have r: "level_in_range s1"
    unfolding s1_def using Cons.prems by (rule loop_keeps_range)
  have e: "fst (polls (p # ps) s) = fst (polls ps s1)"
    by (simp add: s1_def split: prod.splits)
  show ?case
    unfolding e using Cons.IH[of s1] Cons.prems(1) r b by simp
qed

text \<open>
  Claim C8. The level of every state is between 0 and 255. Moreover, after
  \<open>setBlink\<close> or \<open>setPulse\<close> with \<open>minLevel \<le> maxLevel\<close>, the level stays between
  \<open>minLevel\<close> and \<open>maxLevel\<close> after every run of polls, whatever the clock readings.
\<close>

theorem level_range_invariant:
  "0 \<le> uint (ledLevel s) \<and> uint (ledLevel s) \<le> 255
   \<and> (minLevel \<le> maxLevel \<longrightarrow>
        minLevel \<le> ledLevel (fst (polls ps (fst (setBlink n onTime offTime waitTime minLevel maxLevel t0 s))))
      \<and> ledLevel (fst (polls ps (fst (setBlink n onTime offTime waitTime minLevel maxLevel t0 s)))) \<le> maxLevel
      \<and> minLevel \<le> ledLevel (fst (polls ps (fst (setPulse increase onTime offTime waitTime minLevel maxLevel t0 s))))
      \<and> ledLevel (fst (polls ps (fst (setPulse increase onTime offTime waitTime minLevel maxLevel t0 s)))) \<le> maxLevel)"
proof -
  have a: "0 \<le> uint (ledLevel s) \<and> uint (ledLevel s) \<le> 255"
    using uint_lt2p[of "ledLevel s"] by simp
  define b where "b = fst (setBlink n onTime offTime waitTime minLevel maxLevel t0 s)"
  define p where "p = fst (setPulse increase onTime offTime waitTime minLevel maxLevel t0 s)"
  have fb: "ledMinLevel b = minLevel" "ledMaxLevel b = maxLevel"
    and fp: "ledMinLevel p = minLevel" "ledMaxLevel p = maxLevel"
    by (simp_all add: b_def p_def setBlink_fields setPulse_fields)
  have rb: "level_in_range b" and rp: "level_in_range p" if "minLevel \<le> maxLevel"
    using that
    by (simp_all add: b_def p_def level_in_range_def setBlink_def setPulse_def setLed_eq Let_def)
  have "minLevel \<le> ledLevel (fst (polls ps b)) \<and> ledLevel (fst (polls ps b)) \<le> maxLevel
      \<and> minLevel \<le> ledLevel (fst (polls ps p)) \<and> ledLevel (fst (polls ps p)) \<le> maxLevel"
    if h: "minLevel \<le> maxLevel"
    using polls_keep_range[of b ps] polls_keep_range[of p ps] rb[OF h] rp[OF h] h fb fp
    unfolding level_in_range_def by metis
  then show ?thesis using a unfolding b_def p_def by blast
qed

text \<open>
  An instance: four polls of a blinking and of a pulsing channel between the levels
  10 and 12.
\<close>

theorem level_range_invariant_witness:
  "(10::uint8_t) \<le> 12
   \<and> 10 \<le> ledLevel (fst (polls [(21, 21), (30, 30), (42, 43), (70, 70)]
               (fst (setBlink 2 20 20 100 10 12 0 (FF_LED_new 13 False 0)))))
   \<and> ledLevel (fst (polls [(21, 21), (30, 30), (42, 43), (70, 70)]
               (fst (setBlink 2 20 20 100 10 12 0 (FF_LED_new 13 False 0))))) \<le> 12
   \<and> 10 \<le> ledLevel (fst (polls [(21, 21), (30, 30), (42, 43), (70, 70)]
               (fst (setPulse True 20 20 100 10 12 0 (FF_LED_new 13 False 0)))))
   \<and> ledLevel (fst (polls [(21, 21), (30, 30), (42, 43), (70, 70)]
               (fst (setPulse True 20 20 100 10 12 0 (FF_LED_new 13 False 0))))) \<le> 12
   \<and> ledLevel (fst (polls [(21, 21), (30, 30), (42, 43), (70, 70)]
               (fst (setPulse True 20 20 100 10 12 0 (FF_LED_new 13 False 0))))) = 12"
proof -
  have h: "(10::uint8_t) \<le> 12" by simp
  have v: "ledLevel (fst (polls [(21, 21), (30, 30), (42, 43), (70, 70)]
               (fst (setPulse True 20 20 100 10 12 0 (FF_LED_new 13 False 0))))) = 12"
    by (simp add: setPulse_def loop_def loop_due_def setLed_eq Let_def FF_LED_new_def)
  show ?thesis
    using h v level_range_invariant[of "FF_LED_new 13 False 0" 10 12 "[(21, 21), (30, 30), (42, 43), (70, 70)]"
        2 20 20 100 0 True]
    by blast
qed

end
